theory Spec2Isabelle
  imports Main
begin

section \<open>Python values, exceptions and strings\<close>

text \<open>
  An exception is modelled by the text that \<^verbatim>\<open>str(e)\<close> gives. Values stored in a
  chunk's metadata dictionary are of type \<^verbatim>\<open>Any\<close> in the source; the model keeps the
  three shapes the pipeline produces or tests for. Characters are code points below 256;
  \<^verbatim>\<open>str.lower\<close> is modelled on the ASCII letters.
\<close>

datatype exn = Exn string

fun exn_str :: "exn \<Rightarrow> string" where
  "exn_str (Exn m) = m"

datatype pyval = PNone | PInt int | PStr string

definition lower_char :: "char \<Rightarrow> char" where
  "lower_char c =
     (case map_of (zip ''ABCDEFGHIJKLMNOPQRSTUVWXYZ'' ''abcdefghijklmnopqrstuvwxyz'') c of
        Some d \<Rightarrow> d
      | None \<Rightarrow> c)"

definition lower :: "string \<Rightarrow> string" where
  "lower s = map lower_char s"

definition py_isspace :: "char \<Rightarrow> bool" where
  "py_isspace c =
     (c \<in> set [CHR 0x09, CHR 0x0A, CHR 0x0B, CHR 0x0C, CHR 0x0D,
                CHR 0x1C, CHR 0x1D, CHR 0x1E, CHR 0x1F, CHR 0x20, CHR 0x85, CHR 0xA0])"

definition strip :: "string \<Rightarrow> string" where
  "strip s = rev (dropWhile py_isspace (rev (dropWhile py_isspace s)))"

definition digit_char :: "nat \<Rightarrow> char" where
  "digit_char d = ''0123456789'' ! (d mod 10)"

function str_nat :: "nat \<Rightarrow> string" where
  "str_nat n = (if n < 10 then [digit_char n] else str_nat (n div 10) @ [digit_char (n mod 10)])"
  by pat_completeness auto
termination
  by (relation "measure id") auto

definition str_int :: "int \<Rightarrow> string" where
  "str_int i = (if i < 0 then ''-'' @ str_nat (nat (- i)) else str_nat (nat i))"

fun str_pyval :: "pyval \<Rightarrow> string" where
  "str_pyval PNone = ''None''"
| "str_pyval (PInt i) = str_int i"
| "str_pyval (PStr s) = s"

section \<open>Chunks\<close>

text \<open>
  A langchain \<^verbatim>\<open>Document\<close>: the text of the chunk and its metadata dictionary.
  \<^verbatim>\<open>dict.get(key, default)\<close> is \<open>md_get\<close>.
\<close>

type_synonym metadata = "string \<rightharpoonup> pyval"

record document =
  page_content :: string
  metadata :: metadata

definition md_get :: "metadata \<Rightarrow> string \<Rightarrow> pyval \<Rightarrow> pyval" where
  "md_get md key dflt = (case md key of Some v \<Rightarrow> v | None \<Rightarrow> dflt)"

section \<open>The query pipeline (query.py)\<close>

text \<open>
  The collaborators of \<^verbatim>\<open>QueryEngine\<close> are third-party services. Each is a field of the
  environment: a call either raises (\<open>Inl\<close>) or returns (\<open>Inr\<close>). What the engine does to
  them is recorded as a list of events, in call order.
\<close>

datatype llm_response =
    WithContent pyval
  | StrResponse string
  | OtherResponse string

record log_entry =
  lg_question :: string
  lg_answer :: string
  lg_documents_retrieved :: nat
  lg_timestamp :: string
  lg_model :: string
  lg_category_filter :: "string option"

record query_env =
  similarity_search :: "string \<Rightarrow> int \<Rightarrow> exn + document list"
  llm_invoke :: "string \<Rightarrow> exn + llm_response"
  get_model_name :: string
  log_query :: "log_entry \<Rightarrow> exn + string"
  now_isoformat :: string

datatype event =
    EvSimilaritySearch string int
  | EvLlmInvoke string
  | EvLogQuery log_entry

fun is_llm_invoke :: "event \<Rightarrow> bool" where
  "is_llm_invoke (EvLlmInvoke p) = True"
| "is_llm_invoke e = False"

record citation =
  source_number :: nat
  c_filename :: pyval
  c_chunk_index :: pyval
  c_category :: pyval
  c_upload_timestamp :: pyval
  content_preview :: string

record query_response =
  answer :: string
  sources :: "citation list"
  query_text :: string
  timestamp :: string
  model :: string
  documents_retrieved :: "nat option"
  category_filter :: "string option option"
  success :: bool
  error :: "string option"

text \<open>
  \<^verbatim>\<open>doc.metadata.get('category', '').lower() == category_filter.lower()\<close>: a category
  that is not a string has no \<^verbatim>\<open>lower\<close> and raises AttributeError.
\<close>

definition category_matches :: "string \<Rightarrow> document \<Rightarrow> exn + bool" where
  "category_matches cf doc =
     (case md_get (metadata doc) ''category'' (PStr '''') of
        PStr c \<Rightarrow> Inr (lower c = lower cf)
      | PInt i \<Rightarrow> Inl (Exn ''AttributeError: int object has no attribute lower'')
      | PNone \<Rightarrow> Inl (Exn ''AttributeError: NoneType object has no attribute lower''))"

fun filter_category :: "string \<Rightarrow> document list \<Rightarrow> exn + document list" where
  "filter_category cf [] = Inr []"
| "filter_category cf (d # ds) =
     (case category_matches cf d of
        Inl e \<Rightarrow> Inl e
      | Inr b \<Rightarrow>
          (case filter_category cf ds of
             Inl e \<Rightarrow> Inl e
           | Inr r \<Rightarrow> Inr (if b then d # r else r)))"

text \<open>
  The body of the try block of \<^verbatim>\<open>retrieve_documents\<close>. The test
  \<^verbatim>\<open>if category_filter:\<close> is true for a filter that is neither None nor the empty
  string.
\<close>

definition retrieve_documents_try :: "query_env \<Rightarrow> string \<Rightarrow> int \<Rightarrow> string option \<Rightarrow> exn + document list" where
  "retrieve_documents_try env q k cf =
     (case similarity_search env q k of
        Inl e \<Rightarrow> Inl e
      | Inr documents \<Rightarrow>
          (case cf of
             None \<Rightarrow> Inr documents
           | Some f \<Rightarrow> if f \<noteq> [] then filter_category f documents else Inr documents))"

definition retrieve_documents :: "query_env \<Rightarrow> string \<Rightarrow> int \<Rightarrow> string option \<Rightarrow> document list" where
  "retrieve_documents env q k cf =
     (case retrieve_documents_try env q k cf of
        Inl e \<Rightarrow> []
      | Inr documents \<Rightarrow> documents)"

fun context_parts :: "nat \<Rightarrow> document list \<Rightarrow> string list" where
  "context_parts i [] = []"
| "context_parts i (doc # docs) =
     (''[Source '' @ str_nat (i + 1) @ '': '' @ str_pyval (md_get (metadata doc) ''filename'' (PStr ''Unknown''))
        @ '' (chunk '' @ str_pyval (md_get (metadata doc) ''chunk_index'' (PInt 0)) @ '')]\<newline>''
        @ page_content doc @ ''\<newline>'')
     # context_parts (i + 1) docs"

fun join :: "string \<Rightarrow> string list \<Rightarrow> string" where
  "join sep [] = []"
| "join sep [x] = x"
| "join sep (x # y # ys) = x @ sep @ join sep (y # ys)"

definition format_context :: "document list \<Rightarrow> string" where
  "format_context documents =
     (if documents = [] then ''No relevant context found.''
      else join ''\<newline>'' (context_parts 0 documents))"

definition format_prompt :: "string \<Rightarrow> string \<Rightarrow> string" where
  "format_prompt context question =
     ''\<newline>Use the following pieces of context to answer the human's question. \<newline>''
     @ ''If you don't know the answer based on the provided context, just say that you don't know, don't try to make up an answer.\<newline>''
     @ ''\<newline>Context:\<newline>'' @ context @ ''\<newline>\<newline>Question: '' @ question
     @ ''\<newline>\<newline>Helpful Answer:''"

text \<open>
  The body of the try block of \<^verbatim>\<open>generate_answer\<close>: the text is taken from the response
  and stripped; a \<^verbatim>\<open>content\<close> that is not a string has no \<^verbatim>\<open>strip\<close>.
\<close>

definition generate_answer_try :: "query_env \<Rightarrow> string \<Rightarrow> string \<Rightarrow> exn + string" where
  "generate_answer_try env q context =
     (case llm_invoke env (format_prompt context q) of
        Inl e \<Rightarrow> Inl e
      | Inr (WithContent (PStr s)) \<Rightarrow> Inr (strip s)
      | Inr (WithContent (PInt i)) \<Rightarrow> Inl (Exn ''AttributeError: int object has no attribute strip'')
      | Inr (WithContent PNone) \<Rightarrow> Inl (Exn ''AttributeError: NoneType object has no attribute strip'')
      | Inr (StrResponse s) \<Rightarrow> Inr (strip s)
      | Inr (OtherResponse s) \<Rightarrow> Inr (strip s))"

definition generate_answer :: "query_env \<Rightarrow> string \<Rightarrow> string \<Rightarrow> string" where
  "generate_answer env q context =
     (case generate_answer_try env q context of
        Inr a \<Rightarrow> a
      | Inl e \<Rightarrow> ''Sorry, I encountered an error while generating the answer: '' @ exn_str e)"

definition preview :: "string \<Rightarrow> string" where
  "preview content = (if length content > 200 then take 200 content @ ''...'' else content)"

fun citations_from :: "nat \<Rightarrow> document list \<Rightarrow> citation list" where
  "citations_from i [] = []"
| "citations_from i (doc # docs) =
     \<lparr> source_number = i + 1,
       c_filename = md_get (metadata doc) ''filename'' (PStr ''Unknown''),
       c_chunk_index = md_get (metadata doc) ''chunk_index'' (PInt 0),
       c_category = md_get (metadata doc) ''category'' (PStr ''general''),
       c_upload_timestamp = md_get (metadata doc) ''upload_timestamp'' (PStr ''Unknown''),
       content_preview = preview (page_content doc) \<rparr>
     # citations_from (i + 1) docs"

definition extract_citations :: "document list \<Rightarrow> citation list" where
  "extract_citations documents = citations_from 0 documents"

definition no_information_answer :: string where
  "no_information_answer =
     ''I couldn't find any relevant information to answer your question. Please try rephrasing or upload more documents.''"

text \<open>
  \<^verbatim>\<open>QueryEngine.query\<close>. Every helper it calls catches its own exceptions, the model name
  is a stored string and the logging call sits in a try of its own (its outcome is dropped),
  so the outer handler of the source has no path into it and the function returns a response
  on every input.
\<close>

definition query :: "query_env \<Rightarrow> string \<Rightarrow> int \<Rightarrow> string option \<Rightarrow> query_response \<times> event list" where
  "query env question k cf =
     (let documents = retrieve_documents env question k cf in
      if documents = [] then
        (\<lparr> answer = no_information_answer,
           sources = [],
           query_text = question,
           timestamp = now_isoformat env,
           model = get_model_name env,
           documents_retrieved = None,
           category_filter = None,
           success = False,
           error = None \<rparr>,
         [EvSimilaritySearch question k])
      else
        (let context = format_context documents;
             ans = generate_answer env question context;
             citations = extract_citations documents
         in (\<lparr> answer = ans,
                sources = citations,
                query_text = question,
                timestamp = now_isoformat env,
                model = get_model_name env,
                documents_retrieved = Some (length documents),
                category_filter = Some cf,
                success = True,
                error = None \<rparr>,
              [EvSimilaritySearch question k,
               EvLlmInvoke (format_prompt context question),
               EvLogQuery \<lparr> lg_question = question,
                            lg_answer = ans,
                            lg_documents_retrieved = length documents,
                            lg_timestamp = now_isoformat env,
                            lg_model = get_model_name env,
                            lg_category_filter = cf \<rparr>])))"

section \<open>The ingestion pipeline (ingest.py)\<close>

text \<open>
  The file system is a map from paths to file contents. The path functions of the standard
  library, the MD5 digest, the three loaders, the text splitter, the vector store and the
  metadata store are fields of the environment, and so are the errors of the operating
  system: of creating the upload directory, of opening a path for writing, of writing to
  the opened file and of removing a file. \<open>clock\<close> gives the time of the
  \<open>n\<close>-th reading of \<^verbatim>\<open>datetime.now()\<close> inside one call of
  \<^verbatim>\<open>process_and_store\<close>.
\<close>

type_synonym fs = "string \<rightharpoonup> string"

datatype loader_kind = PyPDFLoader | Docx2txtLoader | TextLoader

record document_info =
  di_filename :: string
  di_category :: string
  total_chunks :: nat
  di_upload_timestamp :: string
  file_size :: nat
  file_type :: string
  vector_ids :: "string list"
  document_ids :: "pyval list"

record ingest_env =
  path_name :: "string \<Rightarrow> string"
  path_suffix :: "string \<Rightarrow> string"
  path_stem :: "string \<Rightarrow> string"
  path_join :: "string \<Rightarrow> string \<Rightarrow> string"
  md5_hexdigest :: "string \<Rightarrow> string"
  loader_load :: "loader_kind \<Rightarrow> string \<Rightarrow> string \<Rightarrow> exn + document list"
  split_documents :: "document list \<Rightarrow> exn + document list"
  add_documents :: "document list \<Rightarrow> exn + string list"
  create_document :: "document_info \<Rightarrow> exn + string"
  makedirs_error :: "exn option"
  open_error :: "string \<Rightarrow> exn option"
  write_error :: "string \<Rightarrow> exn option"
  remove_error :: "string \<Rightarrow> exn option"
  clock :: "nat \<Rightarrow> string"

datatype ingest_event =
    EvAddDocuments "document list"
  | EvCreateDocument document_info

record ingest_result =
  r_success :: bool
  r_filename :: string
  chunks_created :: "nat option"
  metadata_id :: "string option"
  r_error :: "string option"
  r_message :: string

record uploaded_file =
  uf_name :: string
  uf_buffer :: string

definition supported_extensions :: "string list" where
  "supported_extensions = [''.pdf'', ''.docx'', ''.txt'']"

definition validate_file :: "ingest_env \<Rightarrow> fs \<Rightarrow> string \<Rightarrow> bool" where
  "validate_file env files file_path =
     (if files file_path = None then False
      else if lower (path_suffix env file_path) \<notin> set supported_extensions then False
      else True)"

definition extract_text :: "ingest_env \<Rightarrow> fs \<Rightarrow> string \<Rightarrow> exn + document list" where
  "extract_text env files file_path =
     (if \<not> validate_file env files file_path then Inl (Exn (''Invalid file: '' @ file_path))
      else
        (case files file_path of
           None \<Rightarrow> Inl (Exn (''[Errno 2] No such file or directory: '' @ file_path))
         | Some content \<Rightarrow>
             (let file_extension = lower (path_suffix env file_path) in
              if file_extension = ''.pdf'' then loader_load env PyPDFLoader file_path content
              else if file_extension = ''.docx'' then loader_load env Docx2txtLoader file_path content
              else if file_extension = ''.txt'' then loader_load env TextLoader file_path content
              else Inl (Exn (''Unsupported file type: '' @ file_extension)))))"

definition chunk_documents :: "ingest_env \<Rightarrow> document list \<Rightarrow> exn + document list" where
  "chunk_documents env documents = split_documents env documents"

definition generate_document_id :: "ingest_env \<Rightarrow> string \<Rightarrow> string \<Rightarrow> string" where
  "generate_document_id env content filename =
     path_stem env filename @ ''_'' @ take 8 (md5_hexdigest env content)"

text \<open>
  \<^verbatim>\<open>base_metadata.update(document.metadata)\<close>: the chunk's own entries win over the
  computed ones.
\<close>

definition prepare_metadata :: "ingest_env \<Rightarrow> string \<Rightarrow> document \<Rightarrow> string \<Rightarrow> nat \<Rightarrow> metadata" where
  "prepare_metadata env now doc filename chunk_index =
     [''filename'' \<mapsto> PStr filename,
      ''chunk_index'' \<mapsto> PInt (int chunk_index),
      ''chunk_size'' \<mapsto> PInt (int (length (page_content doc))),
      ''upload_timestamp'' \<mapsto> PStr now,
      ''document_id'' \<mapsto> PStr (generate_document_id env (page_content doc) filename)]
     ++ metadata doc"

text \<open>
  The loop of \<^verbatim>\<open>process_and_store\<close> over the chunks, from index \<open>i\<close>: the processed
  chunks and the list \<^verbatim>\<open>document_ids\<close>. The key read by
  \<^verbatim>\<open>metadata["document_id"]\<close> is always present (lemma \<open>prepare_metadata_has_id\<close>).
\<close>

fun process_chunks :: "ingest_env \<Rightarrow> string \<Rightarrow> string \<Rightarrow> nat \<Rightarrow> document list \<Rightarrow> document list \<times> pyval list" where
  "process_chunks env filename category i [] = ([], [])"
| "process_chunks env filename category i (chunk # chunks) =
     (let md = (prepare_metadata env (clock env i) chunk filename i)(''category'' \<mapsto> PStr category);
          rest = process_chunks env filename category (i + 1) chunks
      in (\<lparr> page_content = page_content chunk, metadata = md \<rparr> # fst rest,
          md_get md ''document_id'' PNone # snd rest))"

definition getsize :: "fs \<Rightarrow> string \<Rightarrow> exn + nat" where
  "getsize files file_path =
     (case files file_path of
        None \<Rightarrow> Inl (Exn (''[Errno 2] No such file or directory: '' @ file_path))
      | Some content \<Rightarrow> Inr (length content))"

definition process_and_store_try :: "ingest_env \<Rightarrow> fs \<Rightarrow> string \<Rightarrow> string \<Rightarrow> (exn + ingest_result) \<times> ingest_event list" where
  "process_and_store_try env files file_path category =
     (let filename = path_name env file_path in
      case extract_text env files file_path of
        Inl e \<Rightarrow> (Inl e, [])
      | Inr documents \<Rightarrow>
          if documents = [] then (Inl (Exn ''No content extracted from document''), [])
          else
            (case chunk_documents env documents of
               Inl e \<Rightarrow> (Inl e, [])
             | Inr chunked_docs \<Rightarrow>
                 (let pr = process_chunks env filename category 0 chunked_docs;
                      processed_docs = fst pr;
                      doc_ids = snd pr
                  in case add_documents env processed_docs of
                       Inl e \<Rightarrow> (Inl e, [EvAddDocuments processed_docs])
                     | Inr vids \<Rightarrow>
                         (case getsize files file_path of
                            Inl e \<Rightarrow> (Inl e, [EvAddDocuments processed_docs])
                          | Inr sz \<Rightarrow>
                              (let document_info =
                                     \<lparr> di_filename = filename,
                                       di_category = category,
                                       total_chunks = length processed_docs,
                                       di_upload_timestamp = clock env (length chunked_docs),
                                       file_size = sz,
                                       file_type = lower (path_suffix env file_path),
                                       vector_ids = vids,
                                       document_ids = doc_ids \<rparr>
                               in case create_document env document_info of
                                    Inl e \<Rightarrow>
                                      (Inl e, [EvAddDocuments processed_docs, EvCreateDocument document_info])
                                  | Inr mid \<Rightarrow>
                                      (Inr \<lparr> r_success = True,
                                             r_filename = filename,
                                             chunks_created = Some (length processed_docs),
                                             metadata_id = Some mid,
                                             r_error = None,
                                             r_message = ''Successfully processed '' @ filename @ '' into ''
                                               @ str_nat (length processed_docs) @ '' chunks'' \<rparr>,
                                       [EvAddDocuments processed_docs, EvCreateDocument document_info]))))))"

definition process_and_store :: "ingest_env \<Rightarrow> fs \<Rightarrow> string \<Rightarrow> string \<Rightarrow> ingest_result \<times> ingest_event list" where
  "process_and_store env files file_path category =
     (case process_and_store_try env files file_path category of
        (Inr result, evs) \<Rightarrow> (result, evs)
      | (Inl e, evs) \<Rightarrow>
          (let error_msg = ''Error processing '' @ path_name env file_path @ '': '' @ exn_str e
           in (\<lparr> r_success = False,
                  r_filename = path_name env file_path,
                  chunks_created = None,
                  metadata_id = None,
                  r_error = Some error_msg,
                  r_message = error_msg \<rparr>, evs)))"

text \<open>
  Writing the temporary copy, \<^verbatim>\<open>with open(file_path, "wb") as f: f.write(...)\<close>. Opening
  may raise, and then nothing is created. Once the file is open it exists and is empty; if
  reading the upload's buffer or writing it raises, that empty file stays. The result is
  the error raised, if any, and the file system afterwards.
\<close>

definition open_write :: "ingest_env \<Rightarrow> fs \<Rightarrow> string \<Rightarrow> string \<Rightarrow> exn option \<times> fs" where
  "open_write env files file_path content =
     (case open_error env file_path of
        Some e \<Rightarrow> (Some e, files)
      | None \<Rightarrow>
          (case write_error env file_path of
             Some e \<Rightarrow> (Some e, files(file_path \<mapsto> []))
           | None \<Rightarrow> (None, files(file_path \<mapsto> content))))"

text \<open>
  \<^verbatim>\<open>os.remove\<close> raises on a path that does not exist, and on an existing file whenever the
  operating system refuses (permissions, a file in use); the file then stays.
\<close>

definition os_remove :: "ingest_env \<Rightarrow> fs \<Rightarrow> string \<Rightarrow> exn + fs" where
  "os_remove env files file_path =
     (case files file_path of
        None \<Rightarrow> Inl (Exn (''[Errno 2] No such file or directory: '' @ file_path))
      | Some content \<Rightarrow>
          (case remove_error env file_path of
             Some e \<Rightarrow> Inl e
           | None \<Rightarrow> Inr (files(file_path := None))))"

definition error_result :: "uploaded_file \<Rightarrow> exn \<Rightarrow> ingest_result" where
  "error_result f e =
     \<lparr> r_success = False,
       r_filename = uf_name f,
       chunks_created = None,
       metadata_id = None,
       r_error = Some (exn_str e),
       r_message = ''Failed to process '' @ uf_name f @ '': '' @ exn_str e \<rparr>"

text \<open>
  One turn of the loop of \<^verbatim>\<open>process_uploaded_files\<close>, on the results so far, the file
  system and the events so far. The handler of the turn appends an error record and does
  nothing else: there is no \<^verbatim>\<open>finally\<close>. So a failed write leaves what was created, and
  a failing \<^verbatim>\<open>os.remove\<close>, which comes after the file's result was appended, adds a
  second record for the same file and leaves the copy.
\<close>

definition upload_one :: "ingest_env \<Rightarrow> string \<Rightarrow> uploaded_file \<Rightarrow> ingest_result list \<times> fs \<times> ingest_event list \<Rightarrow> ingest_result list \<times> fs \<times> ingest_event list" where
  "upload_one env category f st =
     (case st of (results, files, evs) \<Rightarrow>
        (let file_path = path_join env ''uploads'' (uf_name f) in
         case open_write env files file_path (uf_buffer f) of
           (Some e, files1) \<Rightarrow> (results @ [error_result f e], files1, evs)
         | (None, files1) \<Rightarrow>
             (let pr = process_and_store env files1 file_path category;
                  results1 = results @ [fst pr]
              in case os_remove env files1 file_path of
                   Inl e \<Rightarrow> (results1 @ [error_result f e], files1, evs @ snd pr)
                 | Inr files2 \<Rightarrow> (results1, files2, evs @ snd pr))))"

fun upload_loop :: "ingest_env \<Rightarrow> string \<Rightarrow> uploaded_file list \<Rightarrow> ingest_result list \<times> fs \<times> ingest_event list \<Rightarrow> ingest_result list \<times> fs \<times> ingest_event list" where
  "upload_loop env category [] st = st"
| "upload_loop env category (f # fs) st = upload_loop env category fs (upload_one env category f st)"

text \<open>
  \<^verbatim>\<open>os.makedirs\<close> is called before the loop and outside every try: its error is the only
  one that leaves \<^verbatim>\<open>process_uploaded_files\<close>.
\<close>

definition process_uploaded_files :: "ingest_env \<Rightarrow> fs \<Rightarrow> uploaded_file list \<Rightarrow> string \<Rightarrow> exn + ingest_result list \<times> fs \<times> ingest_event list" where
  "process_uploaded_files env files uploaded_files category =
     (case makedirs_error env of
        Some e \<Rightarrow> Inl e
      | None \<Rightarrow> Inr (upload_loop env category uploaded_files ([], files, [])))"

section \<open>The chat-completion call (external_ai.py)\<close>

text \<open>
  The value \<^verbatim>\<open>response.json()\<close> returns. An object is the dictionary after parsing, as
  an association list read with \<open>map_of\<close>; numbers are kept as integers.
\<close>

datatype json =
    JNull
  | JBool bool
  | JNum int
  | JStr string
  | JArr "json list"
  | JObj "(string \<times> json) list"

text \<open>\<^verbatim>\<open>value[key]\<close> with a string key, \<^verbatim>\<open>value[0]\<close> and \<^verbatim>\<open>value.get(key, default)\<close>.\<close>

fun json_key :: "json \<Rightarrow> string \<Rightarrow> exn + json" where
  "json_key (JObj kvs) key =
     (case map_of kvs key of Some v \<Rightarrow> Inr v | None \<Rightarrow> Inl (Exn ([CHR 0x27] @ key @ [CHR 0x27])))"
| "json_key (JArr xs) key = Inl (Exn ''list indices must be integers or slices, not str'')"
| "json_key (JStr s) key = Inl (Exn ''string indices must be integers, not str'')"
| "json_key v key = Inl (Exn ''object is not subscriptable'')"

fun json_index0 :: "json \<Rightarrow> exn + json" where
  "json_index0 (JArr []) = Inl (Exn ''list index out of range'')"
| "json_index0 (JArr (x # xs)) = Inr x"
| "json_index0 (JStr []) = Inl (Exn ''string index out of range'')"
| "json_index0 (JStr (c # cs)) = Inr (JStr [c])"
| "json_index0 (JObj kvs) = Inl (Exn ''0'')"
| "json_index0 v = Inl (Exn ''object is not subscriptable'')"

fun json_get :: "json \<Rightarrow> string \<Rightarrow> json \<Rightarrow> exn + json" where
  "json_get (JObj kvs) key dflt = Inr (case map_of kvs key of Some v \<Rightarrow> v | None \<Rightarrow> dflt)"
| "json_get v key dflt = Inl (Exn ''object has no attribute get'')"

text \<open>
  A failing call raises either a \<^verbatim>\<open>requests.RequestException\<close>, which the inner handler
  of the loop catches, or something else, which only the outer handler catches. \<open>post\<close>
  answers the \<open>n\<close>-th POST of one call of \<^verbatim>\<open>query_chatgpt\<close>, counted from 0.
\<close>

datatype call_exn = RequestException string | OtherException string

record http_response =
  status_code :: int
  resp_text :: string
  json_body :: "call_exn + json"

record chat_env =
  openai_api_key :: "string option"
  post :: "string \<Rightarrow> string \<Rightarrow> nat \<Rightarrow> call_exn + http_response"
  chat_now :: string

record chat_result =
  cr_success :: bool
  cr_answer :: "json option"
  cr_error :: "string option"
  cr_source :: string
  cr_model :: "string option"
  cr_timestamp :: "string option"
  cr_tokens_used :: "json option"

datatype step = Return chat_result | Retry nat | Raise string

definition chat_failure :: "string \<Rightarrow> chat_result" where
  "chat_failure msg =
     \<lparr> cr_success = False, cr_answer = None, cr_error = Some msg, cr_source = ''ChatGPT'',
       cr_model = None, cr_timestamp = None, cr_tokens_used = None \<rparr>"

definition chat_prompt :: "string \<Rightarrow> string \<Rightarrow> string" where
  "chat_prompt question context =
     (let indent = replicate 12 (CHR '' '') in
      ''\<newline>'' @ indent @ ''Question: '' @ question @ ''\<newline>'' @ indent @ ''\<newline>'' @ indent
      @ (if context \<noteq> [] then ''Context from knowledge base: '' @ context else [])
      @ ''\<newline>'' @ indent @ ''\<newline>'' @ indent
      @ ''Please provide a comprehensive answer. If you reference any external information, \<newline>''
      @ indent @ ''mention it's from your training data up to your knowledge cutoff.\<newline>'' @ indent)"

definition max_retries :: nat where
  "max_retries = 3"

text \<open>\<^verbatim>\<open>result["choices"][0]["message"]["content"]\<close>\<close>

definition chat_content :: "json \<Rightarrow> exn + json" where
  "chat_content result =
     (case json_key result ''choices'' of
        Inl e \<Rightarrow> Inl e
      | Inr choices \<Rightarrow>
          (case json_index0 choices of
             Inl e \<Rightarrow> Inl e
           | Inr choice \<Rightarrow>
               (case json_key choice ''message'' of
                  Inl e \<Rightarrow> Inl e
                | Inr message \<Rightarrow> json_key message ''content'')))"

text \<open>\<^verbatim>\<open>result.get("usage", {}).get("total_tokens", 0)\<close>\<close>

definition chat_tokens :: "json \<Rightarrow> exn + json" where
  "chat_tokens result =
     (case json_get result ''usage'' (JObj []) of
        Inl e \<Rightarrow> Inl e
      | Inr usage \<Rightarrow> json_get usage ''total_tokens'' (JNum 0))"

definition success_result :: "chat_env \<Rightarrow> json \<Rightarrow> exn + chat_result" where
  "success_result env result =
     (case chat_content result of
        Inl e \<Rightarrow> Inl e
      | Inr content \<Rightarrow>
          (case chat_tokens result of
             Inl e \<Rightarrow> Inl e
           | Inr tokens \<Rightarrow>
               Inr \<lparr> cr_success = True, cr_answer = Some content, cr_error = None,
                     cr_source = ''ChatGPT (OpenAI)'', cr_model = Some ''gpt-3.5-turbo'',
                     cr_timestamp = Some (chat_now env), cr_tokens_used = Some tokens \<rparr>))"

text \<open>
  The handlers of one turn of the loop. The statement \<^verbatim>\<open>import time\<close> in the 429 branch
  makes \<^verbatim>\<open>time\<close> a local name of the whole function, so \<^verbatim>\<open>time.sleep(2)\<close> in the
  RequestException handler raises UnboundLocalError unless that import has run before;
  \<open>time_bound\<close> records whether it has.
\<close>

definition on_call_exn :: "bool \<Rightarrow> nat \<Rightarrow> call_exn \<Rightarrow> step" where
  "on_call_exn time_bound attempt x =
     (case x of
        RequestException m \<Rightarrow>
          (if attempt < max_retries - 1 then
             (if time_bound then Retry 2
              else Raise ''cannot access local variable time where it is not associated with a value'')
           else Return (chat_failure (''Request failed: '' @ m)))
      | OtherException m \<Rightarrow> Raise m)"

definition attempt_step :: "chat_env \<Rightarrow> string \<Rightarrow> string \<Rightarrow> bool \<Rightarrow> nat \<Rightarrow> step \<times> bool" where
  "attempt_step env key prompt time_bound attempt =
     (case post env key prompt attempt of
        Inl x \<Rightarrow> (on_call_exn time_bound attempt x, time_bound)
      | Inr response \<Rightarrow>
          (if status_code response = 200 then
             (case json_body response of
                Inl x \<Rightarrow> (on_call_exn time_bound attempt x, time_bound)
              | Inr result \<Rightarrow>
                  (case success_result env result of
                     Inl e \<Rightarrow> (Raise (exn_str e), time_bound)
                   | Inr r \<Rightarrow> (Return r, time_bound)))
           else if status_code response = 429 then
             (if attempt < max_retries - 1 then (Retry ((attempt + 1) * 2), True)
              else (Return (chat_failure ''Rate limit exceeded. Try again in a few minutes.''), time_bound))
           else
             (Return (chat_failure (''OpenAI API error: '' @ str_int (status_code response) @ '' - ''
                        @ resp_text response)), time_bound)))"

text \<open>
  \<^verbatim>\<open>for attempt in range(max_retries)\<close>, with the turns still to run, the seconds slept
  so far and the number of the next attempt. The result carries the seconds slept and the
  number of POSTs made. A loop that ends without returning makes the function return None.
\<close>

fun retry_loop :: "chat_env \<Rightarrow> string \<Rightarrow> string \<Rightarrow> nat \<Rightarrow> bool \<Rightarrow> nat \<Rightarrow> nat list \<Rightarrow> (exn + chat_result option) \<times> nat list \<times> nat" where
  "retry_loop env key prompt 0 time_bound attempt sleeps = (Inr None, sleeps, attempt)"
| "retry_loop env key prompt (Suc remaining) time_bound attempt sleeps =
     (case attempt_step env key prompt time_bound attempt of
        (Return r, tb) \<Rightarrow> (Inr (Some r), sleeps, attempt + 1)
      | (Retry s, tb) \<Rightarrow> retry_loop env key prompt remaining tb (attempt + 1) (sleeps @ [s])
      | (Raise m, tb) \<Rightarrow> (Inl (Exn m), sleeps, attempt + 1))"

definition query_chatgpt :: "chat_env \<Rightarrow> string \<Rightarrow> string \<Rightarrow> chat_result option \<times> nat list \<times> nat" where
  "query_chatgpt env question context =
     (case openai_api_key env of
        None \<Rightarrow> (Some (chat_failure ''OpenAI API key not configured''), [], 0)
      | Some key \<Rightarrow>
          (if key = [] then (Some (chat_failure ''OpenAI API key not configured''), [], 0)
           else
             (case retry_loop env key (chat_prompt question context) max_retries False 0 [] of
                (Inr r, sleeps, posts) \<Rightarrow> (r, sleeps, posts)
              | (Inl e, sleeps, posts) \<Rightarrow> (Some (chat_failure (exn_str e)), sleeps, posts))))"

section \<open>The local flat-file metadata store (firebase_db.py)\<close>

text \<open>
  The documents file either fails to load (\<open>Inl\<close>) or holds a list of records. Loading a
  broken file gives the empty list. \<open>save_error\<close> is the error of opening the file for
  writing, if any; \<open>db_writes\<close> counts the calls that rewrote or tried to rewrite it.
\<close>

type_synonym doc_record = "string \<rightharpoonup> json"

record local_db =
  documents_file :: "exn + doc_record list"
  save_error :: "exn option"
  db_writes :: nat

definition load_json :: "local_db \<Rightarrow> doc_record list" where
  "load_json db = (case documents_file db of Inl e \<Rightarrow> [] | Inr docs \<Rightarrow> docs)"

definition save_json :: "local_db \<Rightarrow> doc_record list \<Rightarrow> bool \<times> local_db" where
  "save_json db data =
     (case save_error db of
        Some e \<Rightarrow> (False, db\<lparr> db_writes := db_writes db + 1 \<rparr>)
      | None \<Rightarrow> (True, db\<lparr> documents_file := Inr data, db_writes := db_writes db + 1 \<rparr>))"

text \<open>The index of the first record whose \<^verbatim>\<open>doc.get('id')\<close> equals \<^verbatim>\<open>doc_id\<close>.\<close>

fun find_doc :: "string \<Rightarrow> doc_record list \<Rightarrow> nat option" where
  "find_doc doc_id [] = None"
| "find_doc doc_id (d # ds) =
     (if d ''id'' = Some (JStr doc_id) then Some 0 else map_option Suc (find_doc doc_id ds))"

definition update_document :: "local_db \<Rightarrow> string \<Rightarrow> string \<Rightarrow> doc_record \<Rightarrow> bool \<times> local_db" where
  "update_document db now doc_id update_data =
     (let documents = load_json db in
      case find_doc doc_id documents of
        None \<Rightarrow> (False, db)
      | Some i \<Rightarrow>
          (True, snd (save_json db
             (documents[i := ((documents ! i) ++ update_data)(''updated_at'' \<mapsto> JStr now)]))))"

definition delete_document :: "local_db \<Rightarrow> string \<Rightarrow> bool \<times> local_db" where
  "delete_document db doc_id =
     (let documents = load_json db in
      case find_doc doc_id documents of
        None \<Rightarrow> (False, db)
      | Some i \<Rightarrow> (True, snd (save_json db (take i documents @ drop (Suc i) documents))))"

section \<open>Scenarios\<close>

text \<open>
  Concrete collaborators for the examples below: a vector store that holds a ranked index
  and answers with its first \<open>k\<close> entries, chunks with a category, and environments
  around them.
\<close>

definition ranked_store :: "document list \<Rightarrow> string \<Rightarrow> int \<Rightarrow> exn + document list" where
  "ranked_store index q k = Inr (take (nat k) index)"

definition chunk_in :: "string \<Rightarrow> string \<Rightarrow> document" where
  "chunk_in category content =
     \<lparr> page_content = content,
       metadata = [''filename'' \<mapsto> PStr ''handbook.txt'', ''chunk_index'' \<mapsto> PInt 0,
                   ''category'' \<mapsto> PStr category] \<rparr>"

definition answering_env :: "document list \<Rightarrow> query_env" where
  "answering_env index =
     \<lparr> similarity_search = ranked_store index,
       llm_invoke = (\<lambda>prompt. Inr (StrResponse '' Twenty days per year. '')),
       get_model_name = ''gpt-3.5-turbo'',
       log_query = (\<lambda>entry. Inr ''query_1_20240501_100000''),
       now_isoformat = ''2024-05-01T10:00:00'' \<rparr>"

definition failing_llm_env :: "document list \<Rightarrow> query_env" where
  "failing_llm_env index =
     (answering_env index)\<lparr> llm_invoke := (\<lambda>prompt. Inl (Exn ''Rate limit reached'')) \<rparr>"

definition failing_store_env :: query_env where
  "failing_store_env =
     (answering_env [])\<lparr> similarity_search := (\<lambda>q k. Inl (Exn ''Connection refused'')) \<rparr>"

definition vacation_question :: string where
  "vacation_question = ''What is the vacation policy?''"

definition sample_ingest_env :: ingest_env where
  "sample_ingest_env =
     \<lparr> path_name = (\<lambda>p. rev (takeWhile (\<lambda>c. c \<noteq> CHR ''/'') (rev p))),
       path_suffix = (\<lambda>p. if CHR ''.'' \<in> set p then CHR ''.'' # rev (takeWhile (\<lambda>c. c \<noteq> CHR ''.'') (rev p)) else []),
       path_stem = (\<lambda>p. rev (tl (dropWhile (\<lambda>c. c \<noteq> CHR ''.'') (rev p)))),
       path_join = (\<lambda>d n. d @ ''/'' @ n),
       md5_hexdigest = (\<lambda>content. ''9e107d9d372bb6826bd81d3542a419d6''),
       loader_load = (\<lambda>kind file_path content.
          Inr [\<lparr> page_content = content, metadata = [''source'' \<mapsto> PStr file_path] \<rparr>]),
       split_documents = (\<lambda>documents. Inr documents),
       add_documents = (\<lambda>documents. Inr (map (\<lambda>d. ''vec'') documents)),
       create_document = (\<lambda>info. Inr ''doc_1_20240501_100000''),
       makedirs_error = None,
       open_error = (\<lambda>p. if p = ''uploads/'' then Some (Exn ''[Errno 21] Is a directory'') else None),
       write_error = (\<lambda>p. None),
       remove_error = (\<lambda>p. None),
       clock = (\<lambda>n. ''2024-05-01T10:00:00'') \<rparr>"

text \<open>
  A batch of two text files, on a system that refuses to remove the first temporary copy.
\<close>

definition handbook_upload :: uploaded_file where
  "handbook_upload = \<lparr> uf_name = ''a.txt'', uf_buffer = ''Vacation accrues monthly.'' \<rparr>"

definition dress_code_upload :: uploaded_file where
  "dress_code_upload = \<lparr> uf_name = ''c.txt'', uf_buffer = ''Dress code is casual.'' \<rparr>"

definition locked_ingest_env :: ingest_env where
  "locked_ingest_env =
     sample_ingest_env\<lparr> remove_error :=
       (\<lambda>p. if p = ''uploads/a.txt'' then Some (Exn ''[Errno 13] Permission denied: uploads/a.txt'')
             else None) \<rparr>"

definition ok_body :: json where
  "ok_body =
     JObj [(''choices'', JArr [JObj [(''message'', JObj [(''role'', JStr ''assistant''), (''content'', JStr ''Third time lucky'')])]]),
           (''usage'', JObj [(''total_tokens'', JNum 42)])]"

definition rate_limited :: http_response where
  "rate_limited = \<lparr> status_code = 429, resp_text = ''Too Many Requests'', json_body = Inr JNull \<rparr>"

definition recovering_chat_env :: chat_env where
  "recovering_chat_env =
     \<lparr> openai_api_key = Some ''sk-test'',
       post = (\<lambda>key prompt n. if n < 2 then Inr rate_limited
                 else Inr \<lparr> status_code = 200, resp_text = [], json_body = Inr ok_body \<rparr>),
       chat_now = ''2024-05-01T10:00:00'' \<rparr>"

definition sample_db :: local_db where
  "sample_db =
     \<lparr> documents_file = Inr [[''id'' \<mapsto> JStr ''doc_1_20240501_100000'', ''filename'' \<mapsto> JStr ''a.txt'']],
       save_error = None,
       db_writes = 0 \<rparr>"

section \<open>Properties of the query pipeline\<close>

lemma filter_category_length:
  "filter_category cf ds = Inr r \<Longrightarrow> length r \<le> length ds"
  by (induction ds arbitrary: r) (auto split: sum.splits if_splits)

lemma filter_category_matches:
  "filter_category cf ds = Inr r \<Longrightarrow> d \<in> set r \<Longrightarrow> category_matches cf d = Inr True"
  by (induction ds arbitrary: r) (auto split: sum.splits if_splits)

lemma filter_category_filter:
  "filter_category cf ds = Inr r \<Longrightarrow> r = filter (\<lambda>d. category_matches cf d = Inr True) ds"
  by (induction ds arbitrary: r) (auto split: sum.splits if_splits)

lemma category_matches_True:
  "category_matches cf d = Inr True \<Longrightarrow>
     \<exists>c. md_get (metadata d) ''category'' (PStr []) = PStr c \<and> lower c = lower cf"
  by (auto simp: category_matches_def split: pyval.splits)

lemma category_matches_chunk_in:
  "category_matches cf (chunk_in category content) = Inr (lower category = lower cf)"
  by (simp add: category_matches_def chunk_in_def md_get_def)

lemma lower_hr_policies: "lower ''hr'' \<noteq> lower ''policies''"
  by (simp add: lower_def)

lemma filter_category_replicate_hr:
  "filter_category ''policies'' (replicate n (chunk_in ''hr'' content)) = Inr []"
  by (induction n) (simp_all add: category_matches_chunk_in lower_hr_policies)

lemma citations_from_length: "length (citations_from n docs) = length docs"
  by (induction docs arbitrary: n) auto

lemma citations_from_nth:
  "i < length docs \<Longrightarrow>
     content_preview (citations_from n docs ! i) = preview (page_content (docs ! i)) \<and>
     source_number (citations_from n docs ! i) = n + i + 1"
proof (induction docs arbitrary: n i)
  case Nil
  then show ?case by simp
next
  case (Cons d ds)
  show ?case
  proof (cases i)
    case 0
    then show ?thesis by simp
  next
    case (Suc j)
    with Cons.prems have "j < length ds" by simp
    from Cons.IH [OF this, of "n + 1"] Suc show ?thesis by simp
  qed
qed

lemma retrieve_ranked_no_filter:
  "retrieve_documents (answering_env index) q k None = take (nat k) index"
  by (simp add: retrieve_documents_def retrieve_documents_try_def answering_env_def ranked_store_def)

lemma retrieve_failing_llm_no_filter:
  "retrieve_documents (failing_llm_env index) q k None = take (nat k) index"
  by (simp add: retrieve_documents_def retrieve_documents_try_def failing_llm_env_def
      answering_env_def ranked_store_def)

text \<open>
  C1, as the code has it. When retrieval yields at least one chunk and the invocation of the
  Model Provider raises, \<^verbatim>\<open>generate_answer\<close> turns the error into the answer text, and
  \<^verbatim>\<open>query\<close> returns its ordinary response around it: the answer is the apology followed
  by the error text, the sources are the citations of the retrieved chunks, the success
  flag is true and there is no error field. Nothing is raised to the caller.
\<close>

theorem query_llm_error_answer:
  assumes "retrieve_documents env question k cf = docs" and "docs \<noteq> []"
    and "llm_invoke env (format_prompt (format_context docs) question) = Inl e"
  shows "fst (query env question k cf) =
     \<lparr> answer = ''Sorry, I encountered an error while generating the answer: '' @ exn_str e,
       sources = extract_citations docs,
       query_text = question,
       timestamp = now_isoformat env,
       model = get_model_name env,
       documents_retrieved = Some (length docs),
       category_filter = Some cf,
       success = True,
       error = None \<rparr>"
  using assms by (simp add: query_def Let_def generate_answer_def generate_answer_try_def)

text \<open>
  An instance: one chunk is retrieved and the provider answers every prompt with a
  rate-limit error.
\<close>

theorem query_llm_error_answer_witness:
  "retrieve_documents (failing_llm_env [chunk_in ''hr'' ''Vacation accrues monthly.'']) vacation_question 5 None
      = [chunk_in ''hr'' ''Vacation accrues monthly.'']
   \<and> answer (fst (query (failing_llm_env [chunk_in ''hr'' ''Vacation accrues monthly.'']) vacation_question 5 None))
      = ''Sorry, I encountered an error while generating the answer: Rate limit reached''
   \<and> length (sources (fst (query (failing_llm_env [chunk_in ''hr'' ''Vacation accrues monthly.'']) vacation_question 5 None))) = 1"
proof -
  let ?env = "failing_llm_env [chunk_in ''hr'' ''Vacation accrues monthly.'']"
  let ?docs = "[chunk_in ''hr'' ''Vacation accrues monthly.'']"
  have r: "retrieve_documents ?env vacation_question 5 None = ?docs"
    by (simp add: retrieve_failing_llm_no_filter)
  have ne: "?docs \<noteq> []" by simp
  have l: "llm_invoke ?env (format_prompt (format_context ?docs) vacation_question)
             = Inl (Exn ''Rate limit reached'')"
    by (simp add: failing_llm_env_def)
  from query_llm_error_answer [OF r ne l] r show ?thesis
    by (simp add: extract_citations_def)
qed

text \<open>
  The claim as the specification words it asks for a false success flag. On the same input
  the provider raises and the response is flagged a success.
\<close>

theorem query_llm_error_success_counterexample:
  "llm_invoke (failing_llm_env [chunk_in ''hr'' ''Vacation accrues monthly.''])
       (format_prompt
          (format_context
             (retrieve_documents (failing_llm_env [chunk_in ''hr'' ''Vacation accrues monthly.''])
                vacation_question 5 None))
          vacation_question)
     = Inl (Exn ''Rate limit reached'')
   \<and> success (fst (query (failing_llm_env [chunk_in ''hr'' ''Vacation accrues monthly.'']) vacation_question 5 None))"
  by (simp add: query_def Let_def retrieve_failing_llm_no_filter)
    (simp add: failing_llm_env_def)

text \<open>
  C2. When retrieval, after any category filtering, yields no chunk, \<^verbatim>\<open>query\<close> returns a
  response with a false success flag, an empty list of sources and the
  "no relevant information" answer, and no event of the call is an invocation of the
  Model Provider.
\<close>

theorem query_no_chunks:
  assumes "retrieve_documents env question k cf = []"
  shows "\<not> success (fst (query env question k cf))
    \<and> sources (fst (query env question k cf)) = []
    \<and> answer (fst (query env question k cf)) = no_information_answer
    \<and> (\<forall>ev \<in> set (snd (query env question k cf)). \<not> is_llm_invoke ev)"
  using assms by (simp add: query_def)

text \<open>An instance: a query against an empty index.\<close>

theorem query_no_chunks_witness:
  "retrieve_documents (answering_env []) vacation_question 5 None = []
   \<and> \<not> success (fst (query (answering_env []) vacation_question 5 None))
   \<and> sources (fst (query (answering_env []) vacation_question 5 None)) = []
   \<and> snd (query (answering_env []) vacation_question 5 None) = [EvSimilaritySearch vacation_question 5]"
proof -
  have r: "retrieve_documents (answering_env []) vacation_question 5 None = []"
    by (simp add: retrieve_ranked_no_filter)
  from query_no_chunks [OF r] r show ?thesis
    by (simp add: query_def)
qed

text \<open>
  C3. Against a vector store that answers a search for \<open>k\<close> with at most \<open>k\<close> chunks, and
  for \<open>k\<close> not negative, \<^verbatim>\<open>retrieve_documents\<close> returns at most \<open>k\<close> chunks. When a filter
  is supplied (a non-empty string), the category of every returned chunk is a string equal
  to the filter once both are lowered. The filter runs over what the store returned for
  \<open>k\<close>, so the result is that window filtered; and for every such \<open>k\<close> there is an index
  holding a matching chunk outside the window for which the result is empty.
\<close>

theorem retrieve_documents_at_most_k:
  assumes "\<forall>ds. similarity_search env q k = Inr ds \<longrightarrow> int (length ds) \<le> k"
    and "0 \<le> k"
  shows "int (length (retrieve_documents env q k cf)) \<le> k
    \<and> (\<forall>f. cf = Some f \<and> f \<noteq> [] \<longrightarrow>
          (\<forall>d \<in> set (retrieve_documents env q k cf).
             \<exists>c. md_get (metadata d) ''category'' (PStr []) = PStr c \<and> lower c = lower f))
    \<and> (\<forall>f ds r. cf = Some f \<and> f \<noteq> [] \<and> similarity_search env q k = Inr ds \<and> filter_category f ds = Inr r \<longrightarrow>
          retrieve_documents env q k cf = filter (\<lambda>d. category_matches f d = Inr True) ds)
    \<and> (\<exists>index d. d \<in> set index \<and> category_matches ''policies'' d = Inr True
          \<and> retrieve_documents (env\<lparr> similarity_search := ranked_store index \<rparr>) q k (Some ''policies'') = [])"
proof (intro conjI allI impI ballI)
  show "int (length (retrieve_documents env q k cf)) \<le> k"
  proof (cases "similarity_search env q k")
    case (Inl e)
    then show ?thesis using assms(2)
      by (simp add: retrieve_documents_def retrieve_documents_try_def)
  next
    case (Inr ds)
    with assms(1) have le: "int (length ds) \<le> k" by simp
    show ?thesis
    proof (cases "retrieve_documents_try env q k cf")
      case (Inl e)
      with assms(2) show ?thesis by (simp add: retrieve_documents_def)
    next
      case r: (Inr r)
      with Inr have "r = ds \<or> (\<exists>f. filter_category f ds = Inr r)"
        by (auto simp: retrieve_documents_try_def split: option.splits if_splits)
      with filter_category_length [of _ ds r] have "length r \<le> length ds" by auto
      with le r show ?thesis by (simp add: retrieve_documents_def)
    qed
  qed
next
  fix f d
  assume cf: "cf = Some f \<and> f \<noteq> []" and d: "d \<in> set (retrieve_documents env q k cf)"
  show "\<exists>c. md_get (metadata d) ''category'' (PStr []) = PStr c \<and> lower c = lower f"
  proof (cases "similarity_search env q k")
    case (Inl e)
    with d show ?thesis
      by (simp add: retrieve_documents_def retrieve_documents_try_def)
  next
    case (Inr ds)
    show ?thesis
    proof (cases "filter_category f ds")
      case (Inl e)
      with Inr d cf show ?thesis
        by (simp add: retrieve_documents_def retrieve_documents_try_def)
    next
      case r: (Inr r)
      with Inr d cf have "d \<in> set r"
        by (simp add: retrieve_documents_def retrieve_documents_try_def)
      from filter_category_matches [OF r this] show ?thesis
        by (rule category_matches_True)
    qed
  qed
next
  fix f ds r
  assume h: "cf = Some f \<and> f \<noteq> [] \<and> similarity_search env q k = Inr ds \<and> filter_category f ds = Inr r"
  then have "retrieve_documents env q k cf = r"
    by (simp add: retrieve_documents_def retrieve_documents_try_def)
  with h filter_category_filter [of f ds r]
  show "retrieve_documents env q k cf = filter (\<lambda>d. category_matches f d = Inr True) ds"
    by simp
next
  let ?index = "replicate (nat k) (chunk_in ''hr'' ''Vacation accrues monthly.'')
                  @ [chunk_in ''policies'' ''Travel is reimbursed.'']"
  have "chunk_in ''policies'' ''Travel is reimbursed.'' \<in> set ?index" by simp
  moreover have "category_matches ''policies'' (chunk_in ''policies'' ''Travel is reimbursed.'') = Inr True"
    by (simp add: category_matches_chunk_in)
  moreover have "retrieve_documents (env\<lparr> similarity_search := ranked_store ?index \<rparr>) q k (Some ''policies'') = []"
    by (simp add: retrieve_documents_def retrieve_documents_try_def ranked_store_def
        filter_category_replicate_hr)
  ultimately show "\<exists>index d. d \<in> set index \<and> category_matches ''policies'' d = Inr True
      \<and> retrieve_documents (env\<lparr> similarity_search := ranked_store index \<rparr>) q k (Some ''policies'') = []"
    by blast
qed

text \<open>
  An instance: the index ranks an HR chunk, a policies chunk and a second HR chunk; a
  search for two with the filter \<open>hr\<close> keeps the first and never sees the third.
\<close>

theorem retrieve_documents_at_most_k_witness:
  "similarity_search
      (answering_env [chunk_in ''HR'' ''Vacation'', chunk_in ''policies'' ''Travel'', chunk_in ''hr'' ''Payroll''])
      vacation_question 2
     = Inr [chunk_in ''HR'' ''Vacation'', chunk_in ''policies'' ''Travel'']
   \<and> int (length (retrieve_documents
      (answering_env [chunk_in ''HR'' ''Vacation'', chunk_in ''policies'' ''Travel'', chunk_in ''hr'' ''Payroll''])
      vacation_question 2 (Some ''hr''))) \<le> 2
   \<and> retrieve_documents
      (answering_env [chunk_in ''HR'' ''Vacation'', chunk_in ''policies'' ''Travel'', chunk_in ''hr'' ''Payroll''])
      vacation_question 2 (Some ''hr'')
     = [chunk_in ''HR'' ''Vacation'']"
proof -
  let ?env = "answering_env [chunk_in ''HR'' ''Vacation'', chunk_in ''policies'' ''Travel'', chunk_in ''hr'' ''Payroll'']"
  have s: "similarity_search ?env vacation_question 2
             = Inr [chunk_in ''HR'' ''Vacation'', chunk_in ''policies'' ''Travel'']"
    by (simp add: answering_env_def ranked_store_def numeral_2_eq_2)
  then have h1: "\<forall>ds. similarity_search ?env vacation_question 2 = Inr ds \<longrightarrow> int (length ds) \<le> 2"
    by simp
  have h2: "(0::int) \<le> 2" by simp
  have f: "filter_category ''hr'' [chunk_in ''HR'' ''Vacation'', chunk_in ''policies'' ''Travel'']
             = Inr [chunk_in ''HR'' ''Vacation'']"
    by (simp add: category_matches_chunk_in lower_def lower_char_def)
  from retrieve_documents_at_most_k [OF h1 h2, of "Some ''hr''"]
  have "int (length (retrieve_documents ?env vacation_question 2 (Some ''hr''))) \<le> 2"
    by blast
  moreover have "retrieve_documents ?env vacation_question 2 (Some ''hr'') = [chunk_in ''HR'' ''Vacation'']"
    using s f by (simp add: retrieve_documents_def retrieve_documents_try_def)
  ultimately show ?thesis using s by simp
qed

text \<open>
  C5. \<^verbatim>\<open>extract_citations\<close> gives one citation per retrieved chunk, in order. The preview
  of a chunk is its whole content when that has at most 200 characters, and otherwise its
  first 200 characters followed by three dots; so no preview is longer than 203 characters.
\<close>

theorem extract_citations_preview:
  "length (extract_citations docs) = length docs
   \<and> (\<forall>i < length docs.
        content_preview (extract_citations docs ! i) =
          (if length (page_content (docs ! i)) \<le> 200 then page_content (docs ! i)
           else take 200 (page_content (docs ! i)) @ ''...'')
        \<and> length (content_preview (extract_citations docs ! i)) \<le> 203
        \<and> source_number (extract_citations docs ! i) = i + 1)"
  using citations_from_nth [of _ docs 0]
  by (auto simp: extract_citations_def citations_from_length preview_def)

text \<open>An instance: a chunk of 250 characters and a short one.\<close>

theorem extract_citations_preview_witness:
  "length (extract_citations [chunk_in ''hr'' (replicate 250 (CHR ''a'')), chunk_in ''hr'' ''short'']) = 2
   \<and> content_preview (extract_citations [chunk_in ''hr'' (replicate 250 (CHR ''a'')), chunk_in ''hr'' ''short''] ! 0)
       = replicate 200 (CHR ''a'') @ ''...''
   \<and> content_preview (extract_citations [chunk_in ''hr'' (replicate 250 (CHR ''a'')), chunk_in ''hr'' ''short''] ! 1)
       = ''short''"
proof -
  let ?docs = "[chunk_in ''hr'' (replicate 250 (CHR ''a'')), chunk_in ''hr'' ''short'']"
  have l: "length ?docs = 2" by simp
  from extract_citations_preview [of ?docs]
  have all: "\<forall>i < 2. content_preview (extract_citations ?docs ! i) =
          (if length (page_content (?docs ! i)) \<le> 200 then page_content (?docs ! i)
           else take 200 (page_content (?docs ! i)) @ ''...'')"
    and len: "length (extract_citations ?docs) = 2"
    by simp_all
  from all have "content_preview (extract_citations ?docs ! 0) = replicate 200 (CHR ''a'') @ ''...''"
    by (simp add: chunk_in_def)
  moreover from all have "content_preview (extract_citations ?docs ! 1) = ''short''"
    by (simp add: chunk_in_def)
  ultimately show ?thesis using len by simp
qed

text \<open>
  C9. When the vector store's \<^verbatim>\<open>similarity_search\<close> raises, \<^verbatim>\<open>retrieve_documents\<close>
  returns the empty list, and \<^verbatim>\<open>query\<close> returns the "no relevant information" response:
  success flag false, no sources, and no error field reporting what the store raised.
\<close>

theorem query_search_error:
  assumes "similarity_search env question k = Inl e"
  shows "retrieve_documents env question k cf = []
    \<and> \<not> success (fst (query env question k cf))
    \<and> sources (fst (query env question k cf)) = []
    \<and> answer (fst (query env question k cf)) = no_information_answer
    \<and> error (fst (query env question k cf)) = None"
  using assms by (simp add: query_def retrieve_documents_def retrieve_documents_try_def)

text \<open>An instance: the store refuses the connection.\<close>

theorem query_search_error_witness:
  "similarity_search failing_store_env vacation_question 5 = Inl (Exn ''Connection refused'')
   \<and> retrieve_documents failing_store_env vacation_question 5 (Some ''hr'') = []
   \<and> answer (fst (query failing_store_env vacation_question 5 (Some ''hr''))) = no_information_answer
   \<and> error (fst (query failing_store_env vacation_question 5 (Some ''hr''))) = None"
proof -
  have s: "similarity_search failing_store_env vacation_question 5 = Inl (Exn ''Connection refused'')"
    by (simp add: failing_store_env_def)
  from query_search_error [OF s, of "Some ''hr''"] s show ?thesis by simp
qed


section \<open>Properties of the ingestion pipeline\<close>

lemma process_chunks_length:
  "length (fst (process_chunks env filename category i chunks)) = length chunks
   \<and> length (snd (process_chunks env filename category i chunks)) = length chunks"
  by (induction chunks arbitrary: i) (simp_all add: Let_def)

lemma prepare_metadata_has_id:
  "prepare_metadata env now doc filename i ''document_id'' \<noteq> None"
  by (simp add: prepare_metadata_def map_add_def split: option.splits)

lemma process_chunks_content:
  "map page_content (fst (process_chunks env filename category i chunks)) = map page_content chunks"
  by (induction chunks arbitrary: i) (simp_all add: Let_def)

lemma process_chunks_stored_ids:
  "map Some (snd (process_chunks env filename category i chunks)) =
     map (\<lambda>d. metadata d ''document_id'') (fst (process_chunks env filename category i chunks))"
proof (induction chunks arbitrary: i)
  case Nil
  show ?case by simp
next
  case (Cons c cs)
  obtain v where "prepare_metadata env (clock env i) c filename i ''document_id'' = Some v"
    using prepare_metadata_has_id [of env "clock env i" c filename i] by auto
  with Cons.IH [of "i + 1"] show ?case
    by (simp add: Let_def md_get_def)
qed

lemma process_chunks_has_ids:
  "d \<in> set (fst (process_chunks env filename category i chunks)) \<Longrightarrow> metadata d ''document_id'' \<noteq> None"
proof (induction chunks arbitrary: i)
  case Nil
  then show ?case by simp
next
  case (Cons c cs)
  from Cons.prems Cons.IH [of "i + 1"] prepare_metadata_has_id [of env "clock env i" c filename i]
  show ?case by (auto simp: Let_def)
qed

lemma process_chunks_generated_ids:
  "\<forall>c \<in> set chunks. metadata c ''document_id'' = None \<Longrightarrow>
     snd (process_chunks env filename category i chunks) =
       map (\<lambda>c. PStr (generate_document_id env (page_content c) filename)) chunks"
  by (induction chunks arbitrary: i)
    (simp_all add: Let_def md_get_def prepare_metadata_def map_add_def)

lemma process_and_store_failure_has_error:
  "\<not> r_success (fst (process_and_store env files file_path category)) \<Longrightarrow>
     r_error (fst (process_and_store env files file_path category)) \<noteq> None"
  by (auto simp: process_and_store_def process_and_store_try_def Let_def
      split: sum.splits if_splits prod.splits)

lemma sample_suffix_txt:
  "lower (path_suffix sample_ingest_env ''uploads/a.txt'') = ''.txt''"
  "lower (path_suffix sample_ingest_env ''uploads/c.txt'') = ''.txt''"
  by (simp_all add: sample_ingest_env_def lower_def lower_char_def)

lemma sample_name:
  "path_name sample_ingest_env ''uploads/a.txt'' = ''a.txt''"
  "path_name sample_ingest_env ''uploads/c.txt'' = ''c.txt''"
  by (simp_all add: sample_ingest_env_def)

lemma sample_services:
  "loader_load sample_ingest_env kind file_path content =
     Inr [\<lparr> page_content = content, metadata = [''source'' \<mapsto> PStr file_path] \<rparr>]"
  "split_documents sample_ingest_env documents = Inr documents"
  "add_documents sample_ingest_env documents = Inr (map (\<lambda>d. ''vec'') documents)"
  "create_document sample_ingest_env info = Inr ''doc_1_20240501_100000''"
  by (simp_all add: sample_ingest_env_def)

lemma sample_extract:
  assumes "file_path = ''uploads/a.txt'' \<or> file_path = ''uploads/c.txt''"
    and "files file_path = Some content"
  shows "extract_text sample_ingest_env files file_path =
     Inr [\<lparr> page_content = content, metadata = [''source'' \<mapsto> PStr file_path] \<rparr>]"
  using assms
  by (auto simp: extract_text_def validate_file_def sample_suffix_txt supported_extensions_def
      sample_services)

lemma sample_process:
  assumes "file_path = ''uploads/a.txt'' \<or> file_path = ''uploads/c.txt''"
    and "files file_path = Some content"
  shows "r_success (fst (process_and_store sample_ingest_env files file_path ''hr''))
    \<and> r_filename (fst (process_and_store sample_ingest_env files file_path ''hr''))
        = path_name sample_ingest_env file_path"
  using assms(2) sample_extract [of file_path files content, OF assms]
  by (simp add: process_and_store_def process_and_store_try_def Let_def
      chunk_documents_def getsize_def sample_services)

text \<open>
  C4. When \<^verbatim>\<open>process_and_store\<close> reports success, text was extracted and split into
  chunks, the vector store was given the processed chunks, and one Document record was
  handed to the metadata store. Its \<^verbatim>\<open>total_chunks\<close> is the number of chunks the splitter
  produced, its \<^verbatim>\<open>document_ids\<close> list has that length, and the result reports the same
  number as \<^verbatim>\<open>chunks_created\<close>. The stored chunks carry the contents of the splitter's
  chunks in order, every stored chunk has a \<open>document_id\<close>, and \<^verbatim>\<open>document_ids\<close> lists
  exactly these, one per chunk and in order; for chunks that bring no \<open>document_id\<close> of
  their own these are the identifiers generated from content and filename.
\<close>

theorem process_and_store_total_chunks:
  assumes "r_success (fst (process_and_store env files file_path category))"
  shows "\<exists>docs chunks stored info.
      extract_text env files file_path = Inr docs
    \<and> chunk_documents env docs = Inr chunks
    \<and> stored = fst (process_chunks env (path_name env file_path) category 0 chunks)
    \<and> snd (process_and_store env files file_path category) =
        [EvAddDocuments stored, EvCreateDocument info]
    \<and> total_chunks info = length chunks
    \<and> length (document_ids info) = total_chunks info
    \<and> chunks_created (fst (process_and_store env files file_path category)) = Some (total_chunks info)
    \<and> map page_content stored = map page_content chunks
    \<and> (\<forall>d \<in> set stored. metadata d ''document_id'' \<noteq> None)
    \<and> map Some (document_ids info) = map (\<lambda>d. metadata d ''document_id'') stored
    \<and> ((\<forall>c \<in> set chunks. metadata c ''document_id'' = None) \<longrightarrow>
          document_ids info =
            map (\<lambda>c. PStr (generate_document_id env (page_content c) (path_name env file_path))) chunks)"
proof -
  from assms obtain docs chunks vids sz where
    d: "extract_text env files file_path = Inr docs"
    and c: "chunk_documents env docs = Inr chunks"
    and ev: "snd (process_and_store env files file_path category) =
        [EvAddDocuments (fst (process_chunks env (path_name env file_path) category 0 chunks)),
         EvCreateDocument
           \<lparr> di_filename = path_name env file_path,
             di_category = category,
             total_chunks = length (fst (process_chunks env (path_name env file_path) category 0 chunks)),
             di_upload_timestamp = clock env (length chunks),
             file_size = sz,
             file_type = lower (path_suffix env file_path),
             vector_ids = vids,
             document_ids = snd (process_chunks env (path_name env file_path) category 0 chunks) \<rparr>]"
    and cc: "chunks_created (fst (process_and_store env files file_path category)) =
        Some (length (fst (process_chunks env (path_name env file_path) category 0 chunks)))"
    by (auto simp: process_and_store_def process_and_store_try_def Let_def
        split: sum.splits if_splits prod.splits)
  let ?stored = "fst (process_chunks env (path_name env file_path) category 0 chunks)"
  let ?ids = "snd (process_chunks env (path_name env file_path) category 0 chunks)"
  let ?info = "\<lparr> di_filename = path_name env file_path,
             di_category = category,
             total_chunks = length ?stored,
             di_upload_timestamp = clock env (length chunks),
             file_size = sz,
             file_type = lower (path_suffix env file_path),
             vector_ids = vids,
             document_ids = ?ids \<rparr>"
  have len: "length ?stored = length chunks" "length ?ids = length chunks"
    using process_chunks_length [of env "path_name env file_path" category 0 chunks] by simp_all
  have content: "map page_content ?stored = map page_content chunks"
    by (rule process_chunks_content)
  have has: "\<forall>d \<in> set ?stored. metadata d ''document_id'' \<noteq> None"
    using process_chunks_has_ids [of _ env "path_name env file_path" category 0 chunks] by blast
  have listed: "map Some ?ids = map (\<lambda>d. metadata d ''document_id'') ?stored"
    by (rule process_chunks_stored_ids)
  have gen: "(\<forall>c \<in> set chunks. metadata c ''document_id'' = None) \<longrightarrow>
      ?ids = map (\<lambda>c. PStr (generate_document_id env (page_content c) (path_name env file_path))) chunks"
    using process_chunks_generated_ids [of chunks env "path_name env file_path" category 0] by blast
  have "extract_text env files file_path = Inr docs
    \<and> chunk_documents env docs = Inr chunks
    \<and> ?stored = fst (process_chunks env (path_name env file_path) category 0 chunks)
    \<and> snd (process_and_store env files file_path category) =
        [EvAddDocuments ?stored, EvCreateDocument ?info]
    \<and> total_chunks ?info = length chunks
    \<and> length (document_ids ?info) = total_chunks ?info
    \<and> chunks_created (fst (process_and_store env files file_path category)) = Some (total_chunks ?info)
    \<and> map page_content ?stored = map page_content chunks
    \<and> (\<forall>d \<in> set ?stored. metadata d ''document_id'' \<noteq> None)
    \<and> map Some (document_ids ?info) = map (\<lambda>d. metadata d ''document_id'') ?stored
    \<and> ((\<forall>c \<in> set chunks. metadata c ''document_id'' = None) \<longrightarrow>
          document_ids ?info =
            map (\<lambda>c. PStr (generate_document_id env (page_content c) (path_name env file_path))) chunks)"
    using d c ev cc len content has listed gen by simp
  then show ?thesis by blast
qed

text \<open>
  An instance: a small text file that the splitter leaves in one chunk. The record written
  lists the one identifier generated for it.
\<close>

theorem process_and_store_total_chunks_witness:
  "r_success (fst (process_and_store sample_ingest_env
       [''uploads/a.txt'' \<mapsto> ''Vacation accrues monthly.''] ''uploads/a.txt'' ''hr''))
   \<and> chunks_created (fst (process_and_store sample_ingest_env
       [''uploads/a.txt'' \<mapsto> ''Vacation accrues monthly.''] ''uploads/a.txt'' ''hr'')) = Some 1
   \<and> (\<exists>stored info.
        snd (process_and_store sample_ingest_env
          [''uploads/a.txt'' \<mapsto> ''Vacation accrues monthly.''] ''uploads/a.txt'' ''hr'')
          = [EvAddDocuments stored, EvCreateDocument info]
      \<and> total_chunks info = 1
      \<and> document_ids info = [PStr ''a_9e107d9d''])"
proof -
  let ?files = "[''uploads/a.txt'' \<mapsto> ''Vacation accrues monthly.'']"
  let ?doc = "\<lparr> page_content = ''Vacation accrues monthly.'',
                metadata = [''source'' \<mapsto> PStr ''uploads/a.txt''] \<rparr>"
  have ok: "r_success (fst (process_and_store sample_ingest_env ?files ''uploads/a.txt'' ''hr''))"
    using sample_process [of "''uploads/a.txt''" ?files] by simp
  have ex: "extract_text sample_ingest_env ?files ''uploads/a.txt'' = Inr [?doc]"
    using sample_extract [of "''uploads/a.txt''" ?files] by simp
  have id: "generate_document_id sample_ingest_env ''Vacation accrues monthly.'' ''a.txt'' = ''a_9e107d9d''"
    by (simp add: generate_document_id_def sample_ingest_env_def)
  from process_and_store_total_chunks [OF ok]
  obtain docs chunks stored info where
    d: "extract_text sample_ingest_env ?files ''uploads/a.txt'' = Inr docs"
    and c: "chunk_documents sample_ingest_env docs = Inr chunks"
    and ev: "snd (process_and_store sample_ingest_env ?files ''uploads/a.txt'' ''hr'') =
        [EvAddDocuments stored, EvCreateDocument info]"
    and t: "total_chunks info = length chunks"
    and cc: "chunks_created (fst (process_and_store sample_ingest_env ?files ''uploads/a.txt'' ''hr''))
        = Some (total_chunks info)"
    and gen: "(\<forall>c \<in> set chunks. metadata c ''document_id'' = None) \<longrightarrow>
          document_ids info =
            map (\<lambda>c. PStr (generate_document_id sample_ingest_env (page_content c)
                   (path_name sample_ingest_env ''uploads/a.txt''))) chunks"
    by (elim exE conjE) (rule that)
  from d ex have docs: "docs = [?doc]" by simp
  with c have chunks: "chunks = [?doc]" by (simp add: chunk_documents_def sample_services)
  from gen chunks id have "document_ids info = [PStr ''a_9e107d9d'']"
    by (simp add: sample_name)
  with ok ev t cc chunks show ?thesis by simp
qed

lemma write_failure_leaves_file:
  assumes "open_error env (path_join env ''uploads'' (uf_name f)) = None"
    and "write_error env (path_join env ''uploads'' (uf_name f)) = Some e"
  shows "upload_one env category f (rs, files, evs) =
     (rs @ [error_result f e], files(path_join env ''uploads'' (uf_name f) \<mapsto> []), evs)"
  using assms by (simp add: upload_one_def open_write_def)

lemma makedirs_failure_raises:
  "makedirs_error env = Some e \<Longrightarrow> process_uploaded_files env files uploaded_files category = Inl e"
  by (simp add: process_uploaded_files_def)

lemma remove_failure_two_results:
  assumes "open_error env (path_join env ''uploads'' (uf_name f)) = None"
    and "write_error env (path_join env ''uploads'' (uf_name f)) = None"
    and "remove_error env (path_join env ''uploads'' (uf_name f)) = Some e"
  shows "upload_one env category f (rs, files, evs) =
     (rs @ [fst (process_and_store env (files(path_join env ''uploads'' (uf_name f) \<mapsto> uf_buffer f))
               (path_join env ''uploads'' (uf_name f)) category),
            error_result f e],
      files(path_join env ''uploads'' (uf_name f) \<mapsto> uf_buffer f),
      evs @ snd (process_and_store env (files(path_join env ''uploads'' (uf_name f) \<mapsto> uf_buffer f))
               (path_join env ''uploads'' (uf_name f)) category))"
  using assms by (simp add: upload_one_def open_write_def os_remove_def Let_def)

lemma remove_success_one_result:
  assumes "open_error env (path_join env ''uploads'' (uf_name f)) = None"
    and "write_error env (path_join env ''uploads'' (uf_name f)) = None"
    and "remove_error env (path_join env ''uploads'' (uf_name f)) = None"
  shows "upload_one env category f (rs, files, evs) =
     (rs @ [fst (process_and_store env (files(path_join env ''uploads'' (uf_name f) \<mapsto> uf_buffer f))
               (path_join env ''uploads'' (uf_name f)) category)],
      files(path_join env ''uploads'' (uf_name f) := None),
      evs @ snd (process_and_store env (files(path_join env ''uploads'' (uf_name f) \<mapsto> uf_buffer f))
               (path_join env ''uploads'' (uf_name f)) category))"
  using assms by (simp add: upload_one_def open_write_def os_remove_def Let_def)

lemma locked_fields:
  "path_join locked_ingest_env ''uploads'' n = ''uploads/'' @ n"
  "makedirs_error locked_ingest_env = None"
  "write_error locked_ingest_env p = None"
  "open_error locked_ingest_env ''uploads/a.txt'' = None"
  "open_error locked_ingest_env ''uploads/c.txt'' = None"
  "remove_error locked_ingest_env ''uploads/a.txt'' = Some (Exn ''[Errno 13] Permission denied: uploads/a.txt'')"
  "remove_error locked_ingest_env ''uploads/c.txt'' = None"
  by (simp_all add: locked_ingest_env_def sample_ingest_env_def)

lemma locked_suffix_txt:
  "lower (path_suffix locked_ingest_env ''uploads/a.txt'') = ''.txt''"
  "lower (path_suffix locked_ingest_env ''uploads/c.txt'') = ''.txt''"
  by (simp_all add: locked_ingest_env_def sample_ingest_env_def lower_def lower_char_def)

lemma locked_name:
  "path_name locked_ingest_env ''uploads/a.txt'' = ''a.txt''"
  "path_name locked_ingest_env ''uploads/c.txt'' = ''c.txt''"
  by (simp_all add: locked_ingest_env_def sample_ingest_env_def)

lemma locked_services:
  "loader_load locked_ingest_env kind file_path content =
     Inr [\<lparr> page_content = content, metadata = [''source'' \<mapsto> PStr file_path] \<rparr>]"
  "split_documents locked_ingest_env documents = Inr documents"
  "add_documents locked_ingest_env documents = Inr (map (\<lambda>d. ''vec'') documents)"
  "create_document locked_ingest_env info = Inr ''doc_1_20240501_100000''"
  by (simp_all add: locked_ingest_env_def sample_ingest_env_def)

lemma locked_extract:
  assumes "file_path = ''uploads/a.txt'' \<or> file_path = ''uploads/c.txt''"
    and "files file_path = Some content"
  shows "extract_text locked_ingest_env files file_path =
     Inr [\<lparr> page_content = content, metadata = [''source'' \<mapsto> PStr file_path] \<rparr>]"
  using assms
  by (auto simp: extract_text_def validate_file_def locked_suffix_txt supported_extensions_def
      locked_services)

lemma locked_process:
  assumes "file_path = ''uploads/a.txt'' \<or> file_path = ''uploads/c.txt''"
    and "files file_path = Some content"
  shows "r_success (fst (process_and_store locked_ingest_env files file_path ''hr''))
    \<and> r_filename (fst (process_and_store locked_ingest_env files file_path ''hr''))
        = path_name locked_ingest_env file_path"
  using assms(2) locked_extract [of file_path files content, OF assms]
  by (simp add: process_and_store_def process_and_store_try_def Let_def
      chunk_documents_def getsize_def locked_services)

text \<open>
  C7, at an input where the code departs from it. Two text files are uploaded and the
  system refuses to remove the temporary copy of the first. The batch returns three
  records for the two files: the first file's success, then a failure record for the same
  first file, then the second file's success, so the record at position 1 is not the
  second file's. The first file's temporary copy is still on disk afterwards; the second
  file was processed and its copy removed.
\<close>

theorem process_uploaded_files_remove_failure:
  "\<exists>ra rc files' evs.
      process_uploaded_files locked_ingest_env Map.empty [handbook_upload, dress_code_upload] ''hr''
        = Inr ([ra, error_result handbook_upload (Exn ''[Errno 13] Permission denied: uploads/a.txt''), rc],
               files', evs)
    \<and> r_success ra \<and> r_filename ra = ''a.txt''
    \<and> r_success rc \<and> r_filename rc = ''c.txt''
    \<and> files' ''uploads/a.txt'' = Some ''Vacation accrues monthly.''
    \<and> files' ''uploads/c.txt'' = None"
proof -
  let ?fa = "[''uploads/a.txt'' \<mapsto> ''Vacation accrues monthly.'']"
  let ?fc = "?fa(''uploads/c.txt'' \<mapsto> ''Dress code is casual.'')"
  let ?ra = "fst (process_and_store locked_ingest_env ?fa ''uploads/a.txt'' ''hr'')"
  let ?rc = "fst (process_and_store locked_ingest_env ?fc ''uploads/c.txt'' ''hr'')"
  let ?ea = "snd (process_and_store locked_ingest_env ?fa ''uploads/a.txt'' ''hr'')"
  let ?ec = "snd (process_and_store locked_ingest_env ?fc ''uploads/c.txt'' ''hr'')"
  have one: "upload_one locked_ingest_env ''hr'' handbook_upload ([], Map.empty, []) =
      ([?ra, error_result handbook_upload (Exn ''[Errno 13] Permission denied: uploads/a.txt'')], ?fa, ?ea)"
    using remove_failure_two_results [of locked_ingest_env handbook_upload
        "Exn ''[Errno 13] Permission denied: uploads/a.txt''" "''hr''" "[]" Map.empty "[]"]
    by (simp add: locked_fields handbook_upload_def)
  have two: "upload_one locked_ingest_env ''hr'' dress_code_upload
        ([?ra, error_result handbook_upload (Exn ''[Errno 13] Permission denied: uploads/a.txt'')], ?fa, ?ea) =
      ([?ra, error_result handbook_upload (Exn ''[Errno 13] Permission denied: uploads/a.txt''), ?rc],
       ?fc(''uploads/c.txt'' := None), ?ea @ ?ec)"
    using remove_success_one_result [of locked_ingest_env dress_code_upload "''hr''"
        "[?ra, error_result handbook_upload (Exn ''[Errno 13] Permission denied: uploads/a.txt'')]" ?fa ?ea]
    by (simp add: locked_fields dress_code_upload_def)
  have run: "process_uploaded_files locked_ingest_env Map.empty [handbook_upload, dress_code_upload] ''hr'' =
      Inr ([?ra, error_result handbook_upload (Exn ''[Errno 13] Permission denied: uploads/a.txt''), ?rc],
           ?fc(''uploads/c.txt'' := None), ?ea @ ?ec)"
    by (simp add: process_uploaded_files_def locked_fields one two)
  have a: "r_success ?ra \<and> r_filename ?ra = ''a.txt''"
    using locked_process [of "''uploads/a.txt''" ?fa] by (simp add: locked_name)
  have c: "r_success ?rc \<and> r_filename ?rc = ''c.txt''"
    using locked_process [of "''uploads/c.txt''" ?fc] by (simp add: locked_name)
  have fa: "(?fc(''uploads/c.txt'' := None)) ''uploads/a.txt'' = Some ''Vacation accrues monthly.''"
    by simp
  have fc: "(?fc(''uploads/c.txt'' := None)) ''uploads/c.txt'' = None"
    by simp
  from run a c fa fc show ?thesis by blast
qed


text \<open>
  C8. The identifier \<^verbatim>\<open>generate_document_id\<close> computes is the stem of the filename, an
  underscore and the first eight digits of the MD5 of the content: nothing else enters.
  Two chunks with the same content under the same filename get the same identifier, also
  in a later run with another clock, another chunk index and other services; and for chunks
  whose own metadata carries no \<open>document_id\<close> entry, this identifier is the \<open>document_id\<close>
  that \<^verbatim>\<open>prepare_metadata\<close> records.
\<close>

theorem generate_document_id_deterministic:
  assumes "md5_hexdigest env2 = md5_hexdigest env1" and "path_stem env2 = path_stem env1"
    and "page_content c2 = page_content c1"
  shows "generate_document_id env2 (page_content c2) filename =
           generate_document_id env1 (page_content c1) filename
    \<and> generate_document_id env1 (page_content c1) filename =
           path_stem env1 filename @ ''_'' @ take 8 (md5_hexdigest env1 (page_content c1))
    \<and> (metadata c1 ''document_id'' = None \<and> metadata c2 ''document_id'' = None \<longrightarrow>
         prepare_metadata env1 now1 c1 filename i1 ''document_id'' =
           Some (PStr (generate_document_id env1 (page_content c1) filename))
       \<and> prepare_metadata env2 now2 c2 filename i2 ''document_id'' =
           prepare_metadata env1 now1 c1 filename i1 ''document_id'')"
  using assms
  by (simp add: generate_document_id_def prepare_metadata_def map_add_def)

text \<open>
  An instance: the same text ingested twice under the same filename, the second time later
  and as another chunk.
\<close>

theorem generate_document_id_deterministic_witness:
  "generate_document_id (sample_ingest_env\<lparr> clock := (\<lambda>n. ''2025-01-01T00:00:00'') \<rparr>)
       (page_content (chunk_in ''hr'' ''Vacation accrues monthly.'')) ''handbook.txt''
     = ''handbook_9e107d9d''
   \<and> prepare_metadata (sample_ingest_env\<lparr> clock := (\<lambda>n. ''2025-01-01T00:00:00'') \<rparr>) ''2025-01-01T00:00:00''
       (chunk_in ''hr'' ''Vacation accrues monthly.'') ''handbook.txt'' 7 ''document_id''
     = prepare_metadata sample_ingest_env ''2024-05-01T10:00:00''
       (chunk_in ''policies'' ''Vacation accrues monthly.'') ''handbook.txt'' 0 ''document_id''"
proof -
  let ?env2 = "sample_ingest_env\<lparr> clock := (\<lambda>n. ''2025-01-01T00:00:00'') \<rparr>"
  let ?c1 = "chunk_in ''policies'' ''Vacation accrues monthly.''"
  let ?c2 = "chunk_in ''hr'' ''Vacation accrues monthly.''"
  have h1: "md5_hexdigest ?env2 = md5_hexdigest sample_ingest_env" by simp
  have h2: "path_stem ?env2 = path_stem sample_ingest_env" by simp
  have h3: "page_content ?c2 = page_content ?c1" by (simp add: chunk_in_def)
  have no: "metadata ?c1 ''document_id'' = None \<and> metadata ?c2 ''document_id'' = None"
    by (simp add: chunk_in_def)
  have v: "generate_document_id sample_ingest_env (page_content ?c1) ''handbook.txt'' = ''handbook_9e107d9d''"
    by (simp add: generate_document_id_def sample_ingest_env_def)
  from generate_document_id_deterministic [OF h1 h2 h3, of "''handbook.txt''" "''2024-05-01T10:00:00''" 0
      "''2025-01-01T00:00:00''" 7] no v
  show ?thesis by simp
qed

section \<open>Properties of the chat-completion call\<close>

lemma max_retries_unfold: "max_retries = Suc (Suc (Suc 0))"
  by (simp add: max_retries_def)

text \<open>
  C6. With an API key configured, let the first two POSTs be answered with status 429.
  The call sleeps 2 and then 4 seconds and makes a third POST. If that one is answered
  with status 200 and a body carrying the content and a usable token count, the call
  returns a success whose answer is that content. If it is answered with 429 as well, the
  call returns the rate-limit failure. In both cases three POSTs were made and no more.
\<close>

theorem query_chatgpt_retries:
  assumes "openai_api_key env = Some key" and "key \<noteq> []"
    and "post env key (chat_prompt question context) 0 = Inr r0" and "status_code r0 = 429"
    and "post env key (chat_prompt question context) 1 = Inr r1" and "status_code r1 = 429"
    and "post env key (chat_prompt question context) 2 = Inr r2"
  shows "(status_code r2 = 200 \<and> json_body r2 = Inr result \<and> chat_content result = Inr content
          \<and> chat_tokens result = Inr tokens \<longrightarrow>
          query_chatgpt env question context =
            (Some \<lparr> cr_success = True, cr_answer = Some content, cr_error = None,
                    cr_source = ''ChatGPT (OpenAI)'', cr_model = Some ''gpt-3.5-turbo'',
                    cr_timestamp = Some (chat_now env), cr_tokens_used = Some tokens \<rparr>,
             [2, 4], 3))
    \<and> (status_code r2 = 429 \<longrightarrow>
          query_chatgpt env question context =
            (Some (chat_failure ''Rate limit exceeded. Try again in a few minutes.''), [2, 4], 3))"
proof -
  have s0: "attempt_step env key (chat_prompt question context) False 0 = (Retry 2, True)"
    using assms by (simp add: attempt_step_def max_retries_def)
  have s1: "attempt_step env key (chat_prompt question context) True (Suc 0) = (Retry 4, True)"
    using assms by (simp add: attempt_step_def max_retries_def)
  have s2a: "status_code r2 = 200 \<and> json_body r2 = Inr result \<and> chat_content result = Inr content
          \<and> chat_tokens result = Inr tokens \<Longrightarrow>
     attempt_step env key (chat_prompt question context) True (Suc (Suc 0)) =
       (Return \<lparr> cr_success = True, cr_answer = Some content, cr_error = None,
                    cr_source = ''ChatGPT (OpenAI)'', cr_model = Some ''gpt-3.5-turbo'',
                    cr_timestamp = Some (chat_now env), cr_tokens_used = Some tokens \<rparr>, True)"
    using assms by (simp add: attempt_step_def success_result_def numeral_2_eq_2)
  have s2b: "status_code r2 = 429 \<Longrightarrow>
     attempt_step env key (chat_prompt question context) True (Suc (Suc 0)) =
       (Return (chat_failure ''Rate limit exceeded. Try again in a few minutes.''), True)"
    using assms by (simp add: attempt_step_def max_retries_def numeral_2_eq_2)
  show ?thesis
    using assms(1,2) s0 s1 s2a s2b
    by (simp add: query_chatgpt_def max_retries_unfold numeral_3_eq_3)
qed

text \<open>An instance: two rate-limited answers, then a completion.\<close>

theorem query_chatgpt_retries_witness:
  "openai_api_key recovering_chat_env = Some ''sk-test''
   \<and> post recovering_chat_env ''sk-test'' (chat_prompt vacation_question []) 0 = Inr rate_limited
   \<and> post recovering_chat_env ''sk-test'' (chat_prompt vacation_question []) 1 = Inr rate_limited
   \<and> status_code rate_limited = 429
   \<and> query_chatgpt recovering_chat_env vacation_question [] =
       (Some \<lparr> cr_success = True, cr_answer = Some (JStr ''Third time lucky''), cr_error = None,
               cr_source = ''ChatGPT (OpenAI)'', cr_model = Some ''gpt-3.5-turbo'',
               cr_timestamp = Some ''2024-05-01T10:00:00'', cr_tokens_used = Some (JNum 42) \<rparr>,
        [2, 4], 3)"
proof -
  let ?p = "chat_prompt vacation_question []"
  let ?r2 = "\<lparr> status_code = 200, resp_text = [], json_body = Inr ok_body \<rparr>"
  have k: "openai_api_key recovering_chat_env = Some ''sk-test''"
    by (simp add: recovering_chat_env_def)
  have ne: "''sk-test'' \<noteq> []" by simp
  have p0: "post recovering_chat_env ''sk-test'' ?p 0 = Inr rate_limited"
    by (simp add: recovering_chat_env_def)
  have p1: "post recovering_chat_env ''sk-test'' ?p 1 = Inr rate_limited"
    by (simp add: recovering_chat_env_def)
  have p2: "post recovering_chat_env ''sk-test'' ?p 2 = Inr ?r2"
    by (simp add: recovering_chat_env_def)
  have st: "status_code rate_limited = 429" by (simp add: rate_limited_def)
  have c: "chat_content ok_body = Inr (JStr ''Third time lucky'')"
    by (simp add: chat_content_def ok_body_def)
  have t: "chat_tokens ok_body = Inr (JNum 42)"
    by (simp add: chat_tokens_def ok_body_def)
  have n: "chat_now recovering_chat_env = ''2024-05-01T10:00:00''"
    by (simp add: recovering_chat_env_def)
  from query_chatgpt_retries [OF k ne p0 st p1 st p2, of ok_body "JStr ''Third time lucky''" "JNum 42"]
    c t n k p0 p1 st
  show ?thesis by simp
qed

section \<open>Properties of the local metadata store\<close>

lemma find_doc_None:
  "(find_doc doc_id ds = None) = (\<forall>d \<in> set ds. d ''id'' \<noteq> Some (JStr doc_id))"
  by (induction ds) auto

lemma find_doc_less: "find_doc doc_id ds = Some i \<Longrightarrow> i < length ds"
  by (induction ds arbitrary: i) (auto split: if_splits)

text \<open>
  C10. When no record of the stored collection has the given identifier,
  \<^verbatim>\<open>update_document\<close> and \<^verbatim>\<open>delete_document\<close> return false and the store is as before:
  the same file content and no write.
\<close>

theorem not_found_leaves_store:
  assumes "\<forall>d \<in> set (load_json db). d ''id'' \<noteq> Some (JStr doc_id)"
  shows "update_document db now doc_id update_data = (False, db)
    \<and> delete_document db doc_id = (False, db)"
proof -
  from assms have "find_doc doc_id (load_json db) = None"
    by (simp add: find_doc_None)
  then show ?thesis
    by (simp add: update_document_def delete_document_def)
qed

text \<open>An instance: a store with one record, asked for another identifier.\<close>

theorem not_found_leaves_store_witness:
  "load_json sample_db = [[''id'' \<mapsto> JStr ''doc_1_20240501_100000'', ''filename'' \<mapsto> JStr ''a.txt'']]
   \<and> update_document sample_db ''2024-05-02T09:00:00'' ''doc_9'' [''category'' \<mapsto> JStr ''hr''] = (False, sample_db)
   \<and> delete_document sample_db ''doc_9'' = (False, sample_db)
   \<and> db_writes (snd (delete_document sample_db ''doc_9'')) = 0"
proof -
  have l: "load_json sample_db = [[''id'' \<mapsto> JStr ''doc_1_20240501_100000'', ''filename'' \<mapsto> JStr ''a.txt'']]"
    by (simp add: load_json_def sample_db_def)
  then have h: "\<forall>d \<in> set (load_json sample_db). d ''id'' \<noteq> Some (JStr ''doc_9'')"
    by simp
  from not_found_leaves_store [OF h, of "''2024-05-02T09:00:00''" "[''category'' \<mapsto> JStr ''hr'']"] l
  show ?thesis by (simp add: sample_db_def)
qed


end
